theory Spec2Isabelle
  imports Main
begin

section \<open>Data model\<close>

text \<open>
  Modelled from the spec: the declarations of \<^verbatim>\<open>./endpoints\<close> (Endpoints, Partition,
  Region, Service and the service endpoint) are not part of the sources at hand. The
  manifest has the shape the spec gives:
  \<^verbatim>\<open>{partitions: [{id, dnsSuffix, regions: [{id, ...}], services: [{id, endpoints: [{regionId, ...}]}]}]}\<close>,
  a Region carrying an identifier and a display name.
\<close>

record Region =
  r_id :: string
  r_name :: string

record Endpoint =
  e_regionId :: string

record Service =
  s_id :: string
  s_endpoints :: "Endpoint list"

record Partition =
  p_id :: string
  p_dnsSuffix :: string
  p_regions :: "Region list"
  p_services :: "Service list"

record Endpoints =
  partitions :: "Partition list"

text \<open>\<^verbatim>\<open>interface RegionData\<close> of regionProvider.ts.\<close>

record RegionData =
  dnsSuffix :: string
  partitionId :: string
  region :: Region
  serviceIds :: "string list"

text \<open>
  A JavaScript \<^verbatim>\<open>Map\<close> keeps its entries in insertion order; \<^verbatim>\<open>set\<close> on a key that is
  present replaces the value where it stands, \<^verbatim>\<open>set\<close> on a new key appends the entry.
  The order is observable through \<^verbatim>\<open>values()\<close>, so the map is an association list.
\<close>

type_synonym ('k, 'v) Map = "('k \<times> 'v) list"

definition Map_new :: "('k, 'v) Map" where
  "Map_new = []"

fun Map_get :: "('k, 'v) Map \<Rightarrow> 'k \<Rightarrow> 'v option" where
  "Map_get [] k = None"
| "Map_get ((k', v) # m) k = (if k' = k then Some v else Map_get m k)"

fun Map_set :: "'k \<Rightarrow> 'v \<Rightarrow> ('k, 'v) Map \<Rightarrow> ('k, 'v) Map" where
  "Map_set k v [] = [(k, v)]"
| "Map_set k v ((k', v') # m) = (if k' = k then (k, v) # m else (k', v') # Map_set k v m)"

definition Map_keys :: "('k, 'v) Map \<Rightarrow> 'k list" where
  "Map_keys m = map fst m"

definition Map_values :: "('k, 'v) Map \<Rightarrow> 'v list" where
  "Map_values m = map snd m"

text \<open>
  A JavaScript \<^verbatim>\<open>Set\<close> built from an array keeps the first occurrence of every
  element, in order; \<^verbatim>\<open>Array.from\<close> reads the elements back in that order.
\<close>

definition Set_add :: "'a \<Rightarrow> 'a list \<Rightarrow> 'a list" where
  "Set_add x s = (if x \<in> set s then s else s @ [x])"

definition Set_new :: "'a list \<Rightarrow> 'a list" where
  "Set_new xs = fold Set_add xs []"

definition Array_from :: "'a list \<Rightarrow> 'a list" where
  "Array_from s = s"

text \<open>
  A string is falsy exactly when it is empty; an optional string is falsy when it is
  undefined or empty.
\<close>

definition truthy :: "string \<Rightarrow> bool" where
  "truthy s = (s \<noteq> [])"

definition truthy_opt :: "string option \<Rightarrow> bool" where
  "truthy_opt v = (case v of None \<Rightarrow> False | Some s \<Rightarrow> truthy s)"

text \<open>
  The two keys of \<^verbatim>\<open>globalState\<close> the provider uses: the value stored under
  \<^verbatim>\<open>regionSettingKey\<close> (a constant of \<^verbatim>\<open>../constants\<close>) and the value stored under
  \<^verbatim>\<open>'lastSelectedRegion'\<close>. \<open>None\<close> is a key that was never written.
\<close>

record Memento =
  regionSetting :: "string list option"
  lastSelectedRegion :: "Region option"

text \<open>
  Modelled from the spec: the declaration of \<^verbatim>\<open>AWSTreeNodeBase\<close> is not part of the
  sources at hand. Of the node only the optional region code is read, the context hint
  \<^verbatim>\<open>{regionCode?: string}\<close> of the spec.
\<close>

record AWSTreeNodeBase =
  regionCode :: "string option"

datatype log_entry = Warn string | Error string

text \<open>
  The fields of \<^verbatim>\<open>class RegionProvider\<close>. \<open>credentialDefaultRegion\<close> is what
  \<^verbatim>\<open>awsContext.getCredentialDefaultRegion()\<close> answers.
\<close>

record RegionProvider =
  regionData :: "(string, RegionData) Map"
  lastTouchedRegion :: "string option"
  globalState :: Memento
  credentialDefaultRegion :: "string option"

section \<open>The region provider\<close>

definition DEFAULT_REGION :: string where
  "DEFAULT_REGION = ''us-east-1''"

definition setRegion :: "Partition \<Rightarrow> Region \<Rightarrow> (string, RegionData) Map \<Rightarrow> (string, RegionData) Map" where
  "setRegion part r rd =
     Map_set (r_id r)
       \<lparr>dnsSuffix = p_dnsSuffix part, partitionId = p_id part, region = r, serviceIds = []\<rparr> rd"

text \<open>
  \<^verbatim>\<open>regionData.serviceIds.push(service.id)\<close> changes the record held by the map; the
  entry keeps its place.
\<close>

definition pushService :: "Service \<Rightarrow> Endpoint \<Rightarrow> (string, RegionData) Map \<Rightarrow> (string, RegionData) Map" where
  "pushService service endpoint rd =
     (case Map_get rd (e_regionId endpoint) of
        None \<Rightarrow> rd
      | Some regionData' \<Rightarrow>
          Map_set (e_regionId endpoint)
            (regionData'\<lparr>serviceIds := serviceIds regionData' @ [s_id service]\<rparr>) rd)"

definition loadService :: "Service \<Rightarrow> (string, RegionData) Map \<Rightarrow> (string, RegionData) Map" where
  "loadService service rd = fold (pushService service) (s_endpoints service) rd"

definition loadPartition :: "Partition \<Rightarrow> (string, RegionData) Map \<Rightarrow> (string, RegionData) Map" where
  "loadPartition part rd =
     fold loadService (p_services part) (fold (setRegion part) (p_regions part) rd)"

definition loadFromEndpoints :: "Endpoints \<Rightarrow> RegionProvider \<Rightarrow> RegionProvider" where
  "loadFromEndpoints endpoints rp =
     rp\<lparr>regionData := fold loadPartition (partitions endpoints) (regionData rp)\<rparr>"

text \<open>The constructor: an empty map, no last-touched region, then the load.\<close>

definition constructor :: "Endpoints \<Rightarrow> Memento \<Rightarrow> string option \<Rightarrow> RegionProvider" where
  "constructor endpoints gs cred =
     loadFromEndpoints endpoints
       \<lparr>regionData = Map_new, lastTouchedRegion = None, globalState = gs,
        credentialDefaultRegion = cred\<rparr>"

definition defaultRegionId :: "RegionProvider \<Rightarrow> string" where
  "defaultRegionId rp =
     (case credentialDefaultRegion rp of Some r \<Rightarrow> r | None \<Rightarrow> DEFAULT_REGION)"

text \<open>
  \<^verbatim>\<open>!!this.regionData.get(regionId)?.serviceIds.find(x => x === serviceId) ?? false\<close>:
  \<^verbatim>\<open>find\<close> answers the element found, and \<^verbatim>\<open>!!\<close> reads it as a boolean.
\<close>

definition isServiceInRegion :: "RegionProvider \<Rightarrow> string \<Rightarrow> string \<Rightarrow> bool" where
  "isServiceInRegion rp serviceId regionId =
     (case Map_get (regionData rp) regionId of
        None \<Rightarrow> False
      | Some rd \<Rightarrow>
          (case find (\<lambda>x. x = serviceId) (serviceIds rd) of
             None \<Rightarrow> False
           | Some x \<Rightarrow> truthy x))"

text \<open>
  The two lookups answer the value and the warnings they log: the warning is written
  when the value is undefined or empty, the value returned is \<^verbatim>\<open>partitionId ?? undefined\<close>.
\<close>

definition getPartitionId :: "RegionProvider \<Rightarrow> string \<Rightarrow> string option \<times> log_entry list" where
  "getPartitionId rp regionId =
     (let partitionId' = map_option partitionId (Map_get (regionData rp) regionId)
      in (partitionId',
          if \<not> truthy_opt partitionId'
          then [Warn (''Unable to determine the Partition that Region '' @ regionId @ '' belongs to'')]
          else []))"

definition getDnsSuffixForRegion :: "RegionProvider \<Rightarrow> string \<Rightarrow> string option \<times> log_entry list" where
  "getDnsSuffixForRegion rp regionId =
     (let dnsSuffix' = map_option dnsSuffix (Map_get (regionData rp) regionId)
      in (dnsSuffix',
          if \<not> truthy_opt dnsSuffix'
          then [Warn (''Unable to find region data for: '' @ regionId)]
          else []))"

definition defaultPartitionId :: "RegionProvider \<Rightarrow> string option" where
  "defaultPartitionId rp = fst (getPartitionId rp (defaultRegionId rp))"

text \<open>
  \<^verbatim>\<open>getRegions(partitionId = this.defaultPartitionId)\<close>: an argument left out is
  \<open>None\<close>, and then the default partition is compared, which may itself be undefined
  and so equal to no record's partition.
\<close>

definition getRegions :: "RegionProvider \<Rightarrow> string option \<Rightarrow> Region list" where
  "getRegions rp arg =
     (let pid = (case arg of None \<Rightarrow> defaultPartitionId rp | Some p \<Rightarrow> Some p)
      in map region (filter (\<lambda>rd. Some (partitionId rd) = pid) (Map_values (regionData rp))))"

definition getExplorerRegions :: "RegionProvider \<Rightarrow> string list" where
  "getExplorerRegions rp =
     (case regionSetting (globalState rp) of None \<Rightarrow> [] | Some rs \<Rightarrow> rs)"

definition updateExplorerRegions :: "string list \<Rightarrow> RegionProvider \<Rightarrow> RegionProvider" where
  "updateExplorerRegions regions rp =
     rp\<lparr>globalState := (globalState rp)\<lparr>regionSetting := Some (Array_from (Set_new regions))\<rparr>\<rparr>"

text \<open>\<^verbatim>\<open>node?.regionCode\<close>.\<close>

definition nodeRegionCode :: "AWSTreeNodeBase option \<Rightarrow> string option" where
  "nodeRegionCode node = (case node of None \<Rightarrow> None | Some n \<Rightarrow> regionCode n)"

text \<open>Every \<open>the\<close> and \<open>hd\<close> below stands under the test that makes it defined.\<close>

definition guessDefaultRegion :: "RegionProvider \<Rightarrow> AWSTreeNodeBase option \<Rightarrow> string" where
  "guessDefaultRegion rp node =
     (let explorerRegions = getExplorerRegions rp in
      if truthy_opt (nodeRegionCode node) then the (nodeRegionCode node)
      else if length explorerRegions = 1 then hd explorerRegions
      else if truthy_opt (lastTouchedRegion rp) then the (lastTouchedRegion rp)
      else
        (let lastWizardResponse = lastSelectedRegion (globalState rp) in
         if truthy_opt (map_option r_id lastWizardResponse) then r_id (the lastWizardResponse)
         else defaultRegionId rp))"

definition setLastTouchedRegion :: "string option \<Rightarrow> RegionProvider \<Rightarrow> RegionProvider" where
  "setLastTouchedRegion r rp =
     (if truthy_opt r then rp\<lparr>lastTouchedRegion := r\<rparr> else rp)"

text \<open>
  \<^verbatim>\<open>fromEndpointsProvider\<close>: the instance is built with the default, empty manifest and
  returned at once; the promise of \<^verbatim>\<open>endpointsProvider.load()\<close> settles later, either
  with a manifest or with a rejection. What the settled promise does to the instance,
  and what it sends to the logger, to the error message window and to the change
  event, is \<open>onLoadSettled\<close>. \<open>company\<close> is \<^verbatim>\<open>getIdeProperties().company\<close> and
  \<open>cloud9\<close> is \<^verbatim>\<open>isCloud9()\<close>.
\<close>

datatype 'a settled = Resolved 'a | Rejected string

record effects =
  logged :: "log_entry list"
  shownErrorMessages :: "string list"
  didChangeFired :: nat

definition noEffects :: effects where
  "noEffects = \<lparr>logged = [], shownErrorMessages = [], didChangeFired = 0\<rparr>"

definition loadFailureMessage :: "string \<Rightarrow> bool \<Rightarrow> string" where
  "loadFailureMessage company cloud9 =
     ''The '' @ company @ '' Toolkit was unable to load endpoints data.'' @ '' '' @
     (if cloud9
      then ''Toolkit functionality may be impacted until the Cloud9 browser tab is refreshed.''
      else ''Toolkit functionality may be impacted until VS Code is restarted.'')"

definition onLoadSettled ::
  "string \<Rightarrow> bool \<Rightarrow> Endpoints settled \<Rightarrow> RegionProvider \<Rightarrow> RegionProvider \<times> effects" where
  "onLoadSettled company cloud9 outcome instance =
     (case outcome of
        Resolved endpoints \<Rightarrow>
          (loadFromEndpoints endpoints (instance\<lparr>regionData := Map_new\<rparr>),
           noEffects\<lparr>didChangeFired := 1\<rparr>)
      | Rejected err \<Rightarrow>
          (instance,
           noEffects\<lparr>logged := [Error (''Failure while loading Endpoints Manifest: '' @ err)],
                     shownErrorMessages := [loadFailureMessage company cloud9]\<rparr>))"

definition fromEndpointsProvider ::
  "string \<Rightarrow> bool \<Rightarrow> Memento \<Rightarrow> string option \<Rightarrow> Endpoints settled \<Rightarrow> RegionProvider \<times> effects" where
  "fromEndpointsProvider company cloud9 gs cred outcome =
     onLoadSettled company cloud9 outcome (constructor \<lparr>partitions = []\<rparr> gs cred)"

section \<open>The telemetry helper\<close>

text \<open>
  \<^verbatim>\<open>getSuggestionState\<close>: the indices are array indices and \<open>-1\<close>, so they are
  integers; the optional \<^verbatim>\<open>Map<number, string>\<close> is only read, by key. The result is the
  string of the telemetry type \<^verbatim>\<open>CodewhispererSuggestionState\<close>.
\<close>

definition getSuggestionState :: "int \<Rightarrow> int \<Rightarrow> (int \<rightharpoonup> string) option \<Rightarrow> string" where
  "getSuggestionState i acceptIndex recommendationSuggestionState =
     (let state = (case recommendationSuggestionState of None \<Rightarrow> None | Some m \<Rightarrow> m i) in
      if (case state of None \<Rightarrow> False
          | Some st \<Rightarrow> truthy st \<and> st \<in> set [''Empty'', ''Filter'', ''Discard''])
      then the state
      else if (case recommendationSuggestionState of None \<Rightarrow> False
               | Some m \<Rightarrow> m i \<noteq> Some ''Showed'')
      then ''Unseen''
      else if acceptIndex = -1 then ''Reject''
      else if i = acceptIndex then ''Accept'' else ''Ignore'')"

section \<open>What the manifest declares, and what the load computes for one region\<close>

text \<open>
  The words of the claims about a manifest: a partition declares a region when the region
  is in its list; a partition offers a service in a region when one of its services has
  that id and an endpoint targeting the region.
\<close>

definition partitionDeclares :: "Partition \<Rightarrow> string \<Rightarrow> bool" where
  "partitionDeclares p r = (r \<in> set (map r_id (p_regions p)))"

definition serviceTargets :: "Service \<Rightarrow> string \<Rightarrow> bool" where
  "serviceTargets svc r = (r \<in> set (map e_regionId (s_endpoints svc)))"

definition partitionOffers :: "Partition \<Rightarrow> string \<Rightarrow> string \<Rightarrow> bool" where
  "partitionOffers p s r = list_ex (\<lambda>svc. s_id svc = s \<and> serviceTargets svc r) (p_services p)"

text \<open>
  The load seen from one region id \<open>r\<close>. \<open>newRegionData\<close> is the record that
  \<open>setRegion\<close> stores; \<open>lastRegion\<close> is the region of the partition that is stored
  last under \<open>r\<close>; \<open>pushed\<close> and \<open>offered\<close> are the service ids that a service and a
  partition push to the record of \<open>r\<close>; \<open>lookupStep\<close> is what loading one partition
  does to the record found under \<open>r\<close>.
\<close>

definition newRegionData :: "Partition \<Rightarrow> Region \<Rightarrow> RegionData" where
  "newRegionData part r =
     \<lparr>dnsSuffix = p_dnsSuffix part, partitionId = p_id part, region = r, serviceIds = []\<rparr>"

definition appendIds :: "string list \<Rightarrow> RegionData \<Rightarrow> RegionData" where
  "appendIds ids rd = rd\<lparr>serviceIds := serviceIds rd @ ids\<rparr>"

definition lastRegion :: "Partition \<Rightarrow> string \<Rightarrow> Region option" where
  "lastRegion p r = find (\<lambda>reg. r_id reg = r) (rev (p_regions p))"

definition pushed :: "Service \<Rightarrow> string \<Rightarrow> string list" where
  "pushed svc r = map (\<lambda>e. s_id svc) (filter (\<lambda>e. e_regionId e = r) (s_endpoints svc))"

definition offered :: "Partition \<Rightarrow> string \<Rightarrow> string list" where
  "offered p r = concat (map (\<lambda>svc. pushed svc r) (p_services p))"

definition lookupStep :: "Partition \<Rightarrow> string \<Rightarrow> RegionData option \<Rightarrow> RegionData option" where
  "lookupStep p r v =
     map_option (appendIds (offered p r))
       (case lastRegion p r of Some reg \<Rightarrow> Some (newRegionData p reg) | None \<Rightarrow> v)"

definition regionIds :: "Partition \<Rightarrow> string list" where
  "regionIds p = map r_id (p_regions p)"

section \<open>Records that answer alike\<close>

text \<open>
  Two records answer every query alike when they agree on partition, DNS suffix and region
  and list the same services, whatever the order and the repetitions of the list.
\<close>

definition sameRecord :: "RegionData \<Rightarrow> RegionData \<Rightarrow> bool" where
  "sameRecord a b \<longleftrightarrow>
     partitionId a = partitionId b \<and> dnsSuffix a = dnsSuffix b \<and> region a = region b \<and>
     set (serviceIds a) = set (serviceIds b)"

section \<open>An example manifest\<close>

text \<open>
  Two partitions. The service \<open>ec2\<close> of the second partition targets \<open>us-east-1\<close>, a
  region of the first; the service \<open>s3\<close> of the first targets \<open>cn-north-1\<close>, which only
  the second partition declares, and \<open>us-west-2\<close>, which no partition declares.
\<close>

definition awsPartition :: Partition where
  "awsPartition =
     \<lparr>p_id = ''aws'', p_dnsSuffix = ''amazonaws.com'',
      p_regions = [\<lparr>r_id = ''us-east-1'', r_name = ''N. Virginia''\<rparr>,
                   \<lparr>r_id = ''eu-west-1'', r_name = ''Ireland''\<rparr>],
      p_services = [\<lparr>s_id = ''s3'', s_endpoints = [\<lparr>e_regionId = ''us-east-1''\<rparr>,
                                                    \<lparr>e_regionId = ''cn-north-1''\<rparr>,
                                                    \<lparr>e_regionId = ''us-west-2''\<rparr>]\<rparr>,
                    \<lparr>s_id = ''lambda'', s_endpoints = [\<lparr>e_regionId = ''eu-west-1''\<rparr>]\<rparr>]\<rparr>"

definition awsCnPartition :: Partition where
  "awsCnPartition =
     \<lparr>p_id = ''aws-cn'', p_dnsSuffix = ''amazonaws.com.cn'',
      p_regions = [\<lparr>r_id = ''cn-north-1'', r_name = ''Beijing''\<rparr>],
      p_services = [\<lparr>s_id = ''ec2'', s_endpoints = [\<lparr>e_regionId = ''us-east-1''\<rparr>,
                                                     \<lparr>e_regionId = ''cn-north-1''\<rparr>]\<rparr>]\<rparr>"

definition exampleManifest :: Endpoints where
  "exampleManifest = \<lparr>partitions = [awsPartition, awsCnPartition]\<rparr>"

definition noPreferences :: Memento where
  "noPreferences = \<lparr>regionSetting = None, lastSelectedRegion = None\<rparr>"

text \<open>A provider that already holds a record for \<open>us-west-2\<close>.\<close>

definition exampleProvider :: RegionProvider where
  "exampleProvider =
     \<lparr>regionData =
        [(''us-west-2'',
          \<lparr>dnsSuffix = ''amazonaws.com'', partitionId = ''aws'',
           region = \<lparr>r_id = ''us-west-2'', r_name = ''Oregon''\<rparr>, serviceIds = [''sqs'']\<rparr>)],
      lastTouchedRegion = None, globalState = noPreferences, credentialDefaultRegion = None\<rparr>"

section \<open>Properties of the telemetry helper\<close>

text \<open>
  C10. \<open>getSuggestionState\<close> answers the state stored for the index when that state is
  Empty, Filter or Discard; otherwise Unseen whenever a map is given and the state stored
  for the index is not Showed (also when nothing is stored, and also when the index is the
  accepted one); otherwise, with no map or with Showed stored, Reject when the accepted
  index is \<open>-1\<close>, Accept when the index is the accepted one, Ignore in every other case.
\<close>

theorem getSuggestionState_cases:
  "(m = Some mp \<and> mp i = Some s \<and> s \<in> {''Empty'', ''Filter'', ''Discard''}
      \<longrightarrow> getSuggestionState i a m = s) \<and>
   (m = Some mp \<and> mp i \<notin> {Some ''Empty'', Some ''Filter'', Some ''Discard'', Some ''Showed''}
      \<longrightarrow> getSuggestionState i a m = ''Unseen'') \<and>
   (m = None \<or> (m = Some mp \<and> mp i = Some ''Showed'')
      \<longrightarrow> getSuggestionState i a m =
            (if a = -1 then ''Reject'' else if i = a then ''Accept'' else ''Ignore''))"
  by (cases "mp i") (auto simp: getSuggestionState_def truthy_def)

theorem getSuggestionState_cases_witness:
  "getSuggestionState 2 2 (Some [2 \<mapsto> ''Filter'']) = ''Filter'' \<and>
   getSuggestionState 2 2 (Some [1 \<mapsto> ''Showed'']) = ''Unseen'' \<and>
   getSuggestionState 2 2 (Some [2 \<mapsto> ''Showed'']) = ''Accept'' \<and>
   getSuggestionState 2 (-1) None = ''Reject'' \<and>
   getSuggestionState 2 3 None = ''Ignore''"
  using getSuggestionState_cases [of "Some [2 \<mapsto> ''Filter'']" "[2 \<mapsto> ''Filter'']" 2 "''Filter''" 2]
        getSuggestionState_cases [of "Some [1 \<mapsto> ''Showed'']" "[1 \<mapsto> ''Showed'']" 2 "''''" 2]
        getSuggestionState_cases [of "Some [2 \<mapsto> ''Showed'']" "[2 \<mapsto> ''Showed'']" 2 "''''" 2]
        getSuggestionState_cases [of None Map.empty 2 "''''" "-1"]
        getSuggestionState_cases [of None Map.empty 2 "''''" 3]
  by simp

section \<open>Properties of the session and preference state\<close>

lemma set_fold_Set_add: "set (fold Set_add xs acc) = set acc \<union> set xs"
  by (induction xs arbitrary: acc) (auto simp: Set_add_def)

lemma distinct_fold_Set_add: "distinct acc \<Longrightarrow> distinct (fold Set_add xs acc)"
  by (induction xs arbitrary: acc) (auto simp: Set_add_def)

text \<open>
  The last-touched region is never the empty string: the constructor leaves it undefined
  and \<open>setLastTouchedRegion\<close> stores truthy arguments only.
\<close>

lemma constructor_lastTouchedRegion: "lastTouchedRegion (constructor m gs cred) = None"
  by (simp add: constructor_def loadFromEndpoints_def)

lemma setLastTouchedRegion_never_empty:
  "lastTouchedRegion rp \<noteq> Some [] \<Longrightarrow> lastTouchedRegion (setLastTouchedRegion x rp) \<noteq> Some []"
  by (auto simp: setLastTouchedRegion_def truthy_opt_def truthy_def split: option.splits)

text \<open>
  C8. \<open>setLastTouchedRegion\<close> with no argument changes nothing: the provider is the same
  afterwards, so the last-touched region keeps its value; after
  \<open>setLastTouchedRegion(''eu-central-1'')\<close> it is still \<open>''eu-central-1''\<close>.
\<close>

theorem setLastTouchedRegion_undefined_noop:
  "setLastTouchedRegion None rp = rp \<and>
   lastTouchedRegion (setLastTouchedRegion None (setLastTouchedRegion (Some ''eu-central-1'') rp))
     = Some ''eu-central-1''"
  by (simp add: setLastTouchedRegion_def truthy_opt_def truthy_def)

text \<open>
  C7. \<open>updateExplorerRegions\<close> stores the argument with its duplicates collapsed, and
  \<open>getExplorerRegions\<close> then answers that list: every element once, the same elements as
  the argument.
\<close>

theorem updateExplorerRegions_dedup:
  "regionSetting (globalState (updateExplorerRegions regions rp)) = Some (Set_new regions) \<and>
   getExplorerRegions (updateExplorerRegions regions rp) = Set_new regions \<and>
   distinct (Set_new regions) \<and> set (Set_new regions) = set regions"
  by (simp add: updateExplorerRegions_def getExplorerRegions_def Array_from_def Set_new_def
        set_fold_Set_add distinct_fold_Set_add)

theorem updateExplorerRegions_dedup_witness:
  "getExplorerRegions
     (updateExplorerRegions [''us-east-1'', ''us-east-1'', ''eu-west-1'']
        \<lparr>regionData = [], lastTouchedRegion = None,
         globalState = \<lparr>regionSetting = Some [''ap-south-1''], lastSelectedRegion = None\<rparr>,
         credentialDefaultRegion = None\<rparr>)
     = [''us-east-1'', ''eu-west-1'']"
  using updateExplorerRegions_dedup
    [of "[''us-east-1'', ''us-east-1'', ''eu-west-1'']"
        "\<lparr>regionData = [], lastTouchedRegion = None,
         globalState = \<lparr>regionSetting = Some [''ap-south-1''], lastSelectedRegion = None\<rparr>,
         credentialDefaultRegion = None\<rparr>"]
  by (simp add: Set_new_def Set_add_def)

text \<open>
  C3, as the claim states it, fails: a context hint whose region code is the empty string
  is passed over, and the single explorer region is answered instead.
\<close>

theorem guessDefaultRegion_empty_hint_counterexample:
  "nodeRegionCode (Some \<lparr>regionCode = Some ''''\<rparr>) = Some '''' \<and>
   guessDefaultRegion
     \<lparr>regionData = [], lastTouchedRegion = None,
      globalState = \<lparr>regionSetting = Some [''eu-west-1''], lastSelectedRegion = None\<rparr>,
      credentialDefaultRegion = None\<rparr>
     (Some \<lparr>regionCode = Some ''''\<rparr>) = ''eu-west-1''"
  by (simp add: guessDefaultRegion_def nodeRegionCode_def truthy_opt_def truthy_def
        getExplorerRegions_def)

text \<open>
  C3, amended. \<open>guessDefaultRegion\<close> answers, in this order of priority: the region code
  of the context hint when the hint carries a non-empty one; else the explorer region when
  exactly one is stored; else the last-touched region when one is recorded (it is non-empty,
  see above); else the id of the stored wizard selection when that id is non-empty; else
  the credential default region, or \<open>''us-east-1''\<close> when there is none.
\<close>

theorem guessDefaultRegion_priority:
  "(node = Some n \<and> regionCode n = Some c \<and> c \<noteq> [] \<longrightarrow> guessDefaultRegion rp node = c) \<and>
   ((\<nexists>n c. node = Some n \<and> regionCode n = Some c \<and> c \<noteq> [])
      \<and> getExplorerRegions rp = [x] \<longrightarrow> guessDefaultRegion rp node = x) \<and>
   ((\<nexists>n c. node = Some n \<and> regionCode n = Some c \<and> c \<noteq> [])
      \<and> length (getExplorerRegions rp) \<noteq> 1
      \<and> lastTouchedRegion rp = Some t \<and> t \<noteq> [] \<longrightarrow> guessDefaultRegion rp node = t) \<and>
   ((\<nexists>n c. node = Some n \<and> regionCode n = Some c \<and> c \<noteq> [])
      \<and> length (getExplorerRegions rp) \<noteq> 1
      \<and> (\<nexists>t. lastTouchedRegion rp = Some t \<and> t \<noteq> [])
      \<and> lastSelectedRegion (globalState rp) = Some w \<and> r_id w \<noteq> []
      \<longrightarrow> guessDefaultRegion rp node = r_id w) \<and>
   ((\<nexists>n c. node = Some n \<and> regionCode n = Some c \<and> c \<noteq> [])
      \<and> length (getExplorerRegions rp) \<noteq> 1
      \<and> (\<nexists>t. lastTouchedRegion rp = Some t \<and> t \<noteq> [])
      \<and> (\<nexists>w. lastSelectedRegion (globalState rp) = Some w \<and> r_id w \<noteq> [])
      \<longrightarrow> guessDefaultRegion rp node =
            (case credentialDefaultRegion rp of Some d \<Rightarrow> d | None \<Rightarrow> ''us-east-1''))"
proof -
  define hint where "hint \<longleftrightarrow> (\<exists>n c. node = Some n \<and> regionCode n = Some c \<and> c \<noteq> [])"
  define touched where "touched \<longleftrightarrow> (\<exists>t. lastTouchedRegion rp = Some t \<and> t \<noteq> [])"
  define wizard where
    "wizard \<longleftrightarrow> (\<exists>w. lastSelectedRegion (globalState rp) = Some w \<and> r_id w \<noteq> [])"
  have h: "truthy_opt (nodeRegionCode node) = hint"
    by (auto simp: hint_def nodeRegionCode_def truthy_opt_def truthy_def split: option.splits)
  have t: "truthy_opt (lastTouchedRegion rp) = touched"
    by (auto simp: touched_def truthy_opt_def truthy_def split: option.splits)
  have w: "truthy_opt (map_option r_id (lastSelectedRegion (globalState rp))) = wizard"
    by (auto simp: wizard_def truthy_opt_def truthy_def split: option.splits)
  have ts: "truthy_opt (Some s) = (s \<noteq> [])" for s
    by (simp add: truthy_opt_def truthy_def)
  have c1: "node = Some n \<and> regionCode n = Some c \<and> c \<noteq> [] \<longrightarrow> guessDefaultRegion rp node = c"
    by (auto simp: guessDefaultRegion_def nodeRegionCode_def truthy_opt_def truthy_def)
  have c2: "\<not> hint \<and> getExplorerRegions rp = [x] \<longrightarrow> guessDefaultRegion rp node = x"
    by (simp add: guessDefaultRegion_def h Let_def)
  have c3: "\<not> hint \<and> length (getExplorerRegions rp) \<noteq> 1
      \<and> lastTouchedRegion rp = Some t \<and> t \<noteq> [] \<longrightarrow> guessDefaultRegion rp node = t"
    by (simp add: guessDefaultRegion_def h ts Let_def)
  have c4: "\<not> hint \<and> length (getExplorerRegions rp) \<noteq> 1 \<and> \<not> touched
      \<and> lastSelectedRegion (globalState rp) = Some w \<and> r_id w \<noteq> []
      \<longrightarrow> guessDefaultRegion rp node = r_id w"
    using w by (auto simp: guessDefaultRegion_def h t Let_def wizard_def)
  have c5: "\<not> hint \<and> length (getExplorerRegions rp) \<noteq> 1 \<and> \<not> touched \<and> \<not> wizard
      \<longrightarrow> guessDefaultRegion rp node =
            (case credentialDefaultRegion rp of Some d \<Rightarrow> d | None \<Rightarrow> ''us-east-1'')"
    by (simp add: guessDefaultRegion_def h t w Let_def defaultRegionId_def DEFAULT_REGION_def
          split: option.splits)
  from c1 c2 c3 c4 c5 show ?thesis
    unfolding hint_def touched_def wizard_def by blast
qed

theorem guessDefaultRegion_priority_witness:
  "guessDefaultRegion
     \<lparr>regionData = [], lastTouchedRegion = Some ''eu-central-1'',
      globalState = \<lparr>regionSetting = Some [''eu-west-1''],
                      lastSelectedRegion = Some \<lparr>r_id = ''us-west-2'', r_name = ''Oregon''\<rparr>\<rparr>,
      credentialDefaultRegion = Some ''ap-northeast-1''\<rparr>
     (Some \<lparr>regionCode = Some ''ap-south-1''\<rparr>) = ''ap-south-1'' \<and>
   guessDefaultRegion
     \<lparr>regionData = [], lastTouchedRegion = Some ''eu-central-1'',
      globalState = \<lparr>regionSetting = Some [''eu-west-1''],
                      lastSelectedRegion = Some \<lparr>r_id = ''us-west-2'', r_name = ''Oregon''\<rparr>\<rparr>,
      credentialDefaultRegion = Some ''ap-northeast-1''\<rparr>
     None = ''eu-west-1'' \<and>
   guessDefaultRegion
     \<lparr>regionData = [], lastTouchedRegion = Some ''eu-central-1'',
      globalState = \<lparr>regionSetting = Some [''eu-west-1'', ''us-east-2''],
                      lastSelectedRegion = Some \<lparr>r_id = ''us-west-2'', r_name = ''Oregon''\<rparr>\<rparr>,
      credentialDefaultRegion = Some ''ap-northeast-1''\<rparr>
     None = ''eu-central-1'' \<and>
   guessDefaultRegion
     \<lparr>regionData = [], lastTouchedRegion = None,
      globalState = \<lparr>regionSetting = None,
                      lastSelectedRegion = Some \<lparr>r_id = ''us-west-2'', r_name = ''Oregon''\<rparr>\<rparr>,
      credentialDefaultRegion = Some ''ap-northeast-1''\<rparr>
     None = ''us-west-2'' \<and>
   guessDefaultRegion
     \<lparr>regionData = [], lastTouchedRegion = None,
      globalState = \<lparr>regionSetting = None, lastSelectedRegion = None\<rparr>,
      credentialDefaultRegion = None\<rparr>
     None = ''us-east-1''"
  using guessDefaultRegion_priority
     [of "Some \<lparr>regionCode = Some ''ap-south-1''\<rparr>" "\<lparr>regionCode = Some ''ap-south-1''\<rparr>" "''ap-south-1''"
         "\<lparr>regionData = [], lastTouchedRegion = Some ''eu-central-1'',
      globalState = \<lparr>regionSetting = Some [''eu-west-1''],
                      lastSelectedRegion = Some \<lparr>r_id = ''us-west-2'', r_name = ''Oregon''\<rparr>\<rparr>,
      credentialDefaultRegion = Some ''ap-northeast-1''\<rparr>" "''eu-west-1''" "''eu-central-1''"
         "\<lparr>r_id = ''us-west-2'', r_name = ''Oregon''\<rparr>"]
    guessDefaultRegion_priority
     [of None "\<lparr>regionCode = None\<rparr>" "''''"
         "\<lparr>regionData = [], lastTouchedRegion = Some ''eu-central-1'',
      globalState = \<lparr>regionSetting = Some [''eu-west-1''],
                      lastSelectedRegion = Some \<lparr>r_id = ''us-west-2'', r_name = ''Oregon''\<rparr>\<rparr>,
      credentialDefaultRegion = Some ''ap-northeast-1''\<rparr>" "''eu-west-1''" "''eu-central-1''"
         "\<lparr>r_id = ''us-west-2'', r_name = ''Oregon''\<rparr>"]
    guessDefaultRegion_priority
     [of None "\<lparr>regionCode = None\<rparr>" "''''"
         "\<lparr>regionData = [], lastTouchedRegion = Some ''eu-central-1'',
      globalState = \<lparr>regionSetting = Some [''eu-west-1'', ''us-east-2''],
                      lastSelectedRegion = Some \<lparr>r_id = ''us-west-2'', r_name = ''Oregon''\<rparr>\<rparr>,
      credentialDefaultRegion = Some ''ap-northeast-1''\<rparr>" "''eu-west-1''" "''eu-central-1''"
         "\<lparr>r_id = ''us-west-2'', r_name = ''Oregon''\<rparr>"]
    guessDefaultRegion_priority
     [of None "\<lparr>regionCode = None\<rparr>" "''''"
         "\<lparr>regionData = [], lastTouchedRegion = None,
      globalState = \<lparr>regionSetting = None,
                      lastSelectedRegion = Some \<lparr>r_id = ''us-west-2'', r_name = ''Oregon''\<rparr>\<rparr>,
      credentialDefaultRegion = Some ''ap-northeast-1''\<rparr>" "''eu-west-1''" "''eu-central-1''"
         "\<lparr>r_id = ''us-west-2'', r_name = ''Oregon''\<rparr>"]
    guessDefaultRegion_priority
     [of None "\<lparr>regionCode = None\<rparr>" "''''"
         "\<lparr>regionData = [], lastTouchedRegion = None,
      globalState = \<lparr>regionSetting = None, lastSelectedRegion = None\<rparr>,
      credentialDefaultRegion = None\<rparr>" "''eu-west-1''" "''eu-central-1''"
         "\<lparr>r_id = ''us-west-2'', r_name = ''Oregon''\<rparr>"]
  by (simp add: getExplorerRegions_def)

section \<open>Properties of the lookups\<close>

lemma isServiceInRegion_iff:
  "isServiceInRegion rp s r \<longleftrightarrow>
     s \<noteq> [] \<and> (\<exists>rd. Map_get (regionData rp) r = Some rd \<and> s \<in> set (serviceIds rd))"
  by (auto simp: isServiceInRegion_def truthy_def find_Some_iff find_None_iff in_set_conv_nth
           split: option.splits)

text \<open>
  C4. The claim: \<open>isServiceInRegion\<close> is true exactly when the region has a record whose
  service list contains the service id. The code reads the element that \<^verbatim>\<open>find\<close> answers
  as a boolean, so a service whose id is the empty string is never found: here the record
  of \<open>us-east-1\<close> lists the service \<open>''''\<close>, and the answer is false.
\<close>

theorem isServiceInRegion_empty_service_id:
  "map_option serviceIds (Map_get (regionData
      (constructor \<lparr>partitions = [\<lparr>p_id = ''aws'', p_dnsSuffix = ''amazonaws.com'',
           p_regions = [\<lparr>r_id = ''us-east-1'', r_name = ''N. Virginia''\<rparr>],
           p_services = [\<lparr>s_id = '''', s_endpoints = [\<lparr>e_regionId = ''us-east-1''\<rparr>]\<rparr>]\<rparr>]\<rparr>
         \<lparr>regionSetting = None, lastSelectedRegion = None\<rparr> None)) ''us-east-1'') = Some ['''']
   \<and> isServiceInRegion
      (constructor \<lparr>partitions = [\<lparr>p_id = ''aws'', p_dnsSuffix = ''amazonaws.com'',
           p_regions = [\<lparr>r_id = ''us-east-1'', r_name = ''N. Virginia''\<rparr>],
           p_services = [\<lparr>s_id = '''', s_endpoints = [\<lparr>e_regionId = ''us-east-1''\<rparr>]\<rparr>]\<rparr>]\<rparr>
         \<lparr>regionSetting = None, lastSelectedRegion = None\<rparr> None) '''' ''us-east-1'' = False"
  by (simp add: constructor_def loadFromEndpoints_def loadPartition_def loadService_def
        pushService_def setRegion_def Map_new_def isServiceInRegion_def truthy_def)

text \<open>
  C9. For a region that has a record, \<open>getPartitionId\<close> and \<open>getDnsSuffixForRegion\<close>
  answer the stored string, the empty string included; the answer is undefined exactly
  when the region has no record.
\<close>

theorem lookups_return_stored_string:
  "(Map_get (regionData rp) r = Some rd \<longrightarrow>
      fst (getPartitionId rp r) = Some (partitionId rd) \<and>
      fst (getDnsSuffixForRegion rp r) = Some (dnsSuffix rd)) \<and>
   (fst (getPartitionId rp r) = None \<longleftrightarrow> Map_get (regionData rp) r = None) \<and>
   (fst (getDnsSuffixForRegion rp r) = None \<longleftrightarrow> Map_get (regionData rp) r = None)"
  by (simp add: getPartitionId_def getDnsSuffixForRegion_def Let_def)

theorem lookups_return_stored_string_witness:
  "fst (getPartitionId
         (constructor \<lparr>partitions = [\<lparr>p_id = '''', p_dnsSuffix = '''',
             p_regions = [\<lparr>r_id = ''local'', r_name = ''Local''\<rparr>], p_services = []\<rparr>]\<rparr>
           \<lparr>regionSetting = None, lastSelectedRegion = None\<rparr> None) ''local'') = Some '''' \<and>
   fst (getDnsSuffixForRegion
         (constructor \<lparr>partitions = [\<lparr>p_id = '''', p_dnsSuffix = '''',
             p_regions = [\<lparr>r_id = ''local'', r_name = ''Local''\<rparr>], p_services = []\<rparr>]\<rparr>
           \<lparr>regionSetting = None, lastSelectedRegion = None\<rparr> None) ''local'') = Some ''''"
  using lookups_return_stored_string
    [of "constructor \<lparr>partitions = [\<lparr>p_id = '''', p_dnsSuffix = '''',
             p_regions = [\<lparr>r_id = ''local'', r_name = ''Local''\<rparr>], p_services = []\<rparr>]\<rparr>
           \<lparr>regionSetting = None, lastSelectedRegion = None\<rparr> None" "''local''"
        "\<lparr>dnsSuffix = '''', partitionId = '''', region = \<lparr>r_id = ''local'', r_name = ''Local''\<rparr>,
          serviceIds = []\<rparr>"]
  by (simp add: constructor_def loadFromEndpoints_def loadPartition_def setRegion_def Map_new_def)

section \<open>A failed load of the manifest\<close>

text \<open>
  C5. When the promise of the manifest is rejected, the provider is returned as it was:
  \<open>getRegions\<close> answers the same list for every partition and \<open>isServiceInRegion\<close> the
  same value for every service and region. The failure goes to the log and to the error
  message window, no change event is fired, and the rejection is consumed: the outcome is
  a provider, never an error. The provider that \<open>fromEndpointsProvider\<close> hands out
  then stays the empty one it built.
\<close>

theorem load_failure_keeps_index:
  "fst (onLoadSettled company cloud9 (Rejected err) rp) = rp \<and>
   (\<forall>pid. getRegions (fst (onLoadSettled company cloud9 (Rejected err) rp)) pid = getRegions rp pid) \<and>
   (\<forall>s r. isServiceInRegion (fst (onLoadSettled company cloud9 (Rejected err) rp)) s r
            = isServiceInRegion rp s r) \<and>
   logged (snd (onLoadSettled company cloud9 (Rejected err) rp))
     = [Error (''Failure while loading Endpoints Manifest: '' @ err)] \<and>
   shownErrorMessages (snd (onLoadSettled company cloud9 (Rejected err) rp))
     = [loadFailureMessage company cloud9] \<and>
   didChangeFired (snd (onLoadSettled company cloud9 (Rejected err) rp)) = 0 \<and>
   regionData (fst (fromEndpointsProvider company cloud9 gs cred (Rejected err))) = Map_new"
  by (simp add: onLoadSettled_def fromEndpointsProvider_def noEffects_def constructor_def
        loadFromEndpoints_def)

section \<open>The load, one region at a time\<close>

text \<open>
  What \<open>Map_get\<close> finds under a key after each stage of the load, and which keys the
  map holds, in which order.
\<close>

lemma Map_get_Map_set: "Map_get (Map_set k v m) k' = (if k' = k then Some v else Map_get m k')"
  by (induction m) auto

lemma Map_get_map_of: "Map_get m k = map_of m k"
  by (induction m) auto

lemma Map_get_None_iff: "Map_get m k = None \<longleftrightarrow> k \<notin> set (Map_keys m)"
  by (simp add: Map_get_map_of map_of_eq_None_iff Map_keys_def)

lemma Map_keys_Map_set: "Map_keys (Map_set k v m) = Set_add k (Map_keys m)"
  by (induction m) (force simp: Map_keys_def Set_add_def)+

lemma find_snoc:
  "find P (xs @ [x]) = (case find P xs of Some y \<Rightarrow> Some y | None \<Rightarrow> if P x then Some x else None)"
  by (induction xs) auto

lemma Map_get_setRegion:
  "Map_get (setRegion p reg m) k = (if k = r_id reg then Some (newRegionData p reg) else Map_get m k)"
  by (simp add: setRegion_def newRegionData_def Map_get_Map_set)

lemma Map_get_fold_setRegion:
  "Map_get (fold (setRegion p) rs m) k =
     (case find (\<lambda>reg. r_id reg = k) (rev rs) of
        Some reg \<Rightarrow> Some (newRegionData p reg) | None \<Rightarrow> Map_get m k)"
  by (induction rs arbitrary: m) (auto simp: find_snoc Map_get_setRegion split: option.splits)

lemma appendIds_Nil: "appendIds [] rd = rd"
  by (simp add: appendIds_def)

lemma appendIds_appendIds: "appendIds ys (appendIds xs rd) = appendIds (xs @ ys) rd"
  by (simp add: appendIds_def)

lemma map_option_appendIds_Nil: "map_option (appendIds []) v = v"
  by (cases v) (simp_all add: appendIds_Nil)

lemma map_option_appendIds_appendIds:
  "map_option (appendIds ys) (map_option (appendIds xs) v) = map_option (appendIds (xs @ ys)) v"
  by (cases v) (simp_all add: appendIds_appendIds)

lemma Map_get_pushService:
  "Map_get (pushService svc e m) k =
     (if k = e_regionId e then map_option (appendIds [s_id svc]) (Map_get m k) else Map_get m k)"
  by (auto simp: pushService_def appendIds_def Map_get_Map_set split: option.splits)

lemma Map_get_fold_pushService:
  "Map_get (fold (pushService svc) es m) k =
     map_option (appendIds (map (\<lambda>e. s_id svc) (filter (\<lambda>e. e_regionId e = k) es))) (Map_get m k)"
  by (induction es arbitrary: m)
     (simp_all add: Map_get_pushService map_option_appendIds_Nil map_option_appendIds_appendIds)

lemma Map_get_loadService:
  "Map_get (loadService svc m) k = map_option (appendIds (pushed svc k)) (Map_get m k)"
  by (simp add: loadService_def pushed_def Map_get_fold_pushService)

lemma Map_get_fold_loadService:
  "Map_get (fold loadService svcs m) k =
     map_option (appendIds (concat (map (\<lambda>svc. pushed svc k) svcs))) (Map_get m k)"
  by (induction svcs arbitrary: m)
     (simp_all add: Map_get_loadService map_option_appendIds_Nil map_option_appendIds_appendIds)

lemma Map_get_loadPartition:
  "Map_get (loadPartition p m) k = lookupStep p k (Map_get m k)"
  by (simp add: loadPartition_def lookupStep_def offered_def lastRegion_def
        Map_get_fold_loadService Map_get_fold_setRegion)

lemma Map_get_fold_loadPartition:
  "Map_get (fold loadPartition ps m) k = fold (\<lambda>p. lookupStep p k) ps (Map_get m k)"
  by (induction ps arbitrary: m) (simp_all add: Map_get_loadPartition)

lemma Map_keys_setRegion: "Map_keys (setRegion p reg m) = Set_add (r_id reg) (Map_keys m)"
  by (simp add: setRegion_def Map_keys_Map_set)

lemma Map_keys_fold_setRegion:
  "Map_keys (fold (setRegion p) rs m) = fold Set_add (map r_id rs) (Map_keys m)"
  by (induction rs arbitrary: m) (simp_all add: Map_keys_setRegion)

lemma Map_keys_pushService: "Map_keys (pushService svc e m) = Map_keys m"
proof (cases "Map_get m (e_regionId e)")
  case None
  then show ?thesis by (simp add: pushService_def)
next
  case (Some rd)
  then have "e_regionId e \<in> set (Map_keys m)"
    using Map_get_None_iff [of m "e_regionId e"] by simp
  with Some show ?thesis
    by (simp add: pushService_def Map_keys_Map_set Set_add_def)
qed

lemma Map_keys_fold_pushService: "Map_keys (fold (pushService svc) es m) = Map_keys m"
  by (induction es arbitrary: m) (simp_all add: Map_keys_pushService)

lemma Map_keys_fold_loadService: "Map_keys (fold loadService svcs m) = Map_keys m"
  by (induction svcs arbitrary: m) (simp_all add: loadService_def Map_keys_fold_pushService)

lemma Map_keys_loadPartition:
  "Map_keys (loadPartition p m) = fold Set_add (regionIds p) (Map_keys m)"
  by (simp add: loadPartition_def regionIds_def Map_keys_fold_loadService Map_keys_fold_setRegion)

lemma Map_keys_fold_loadPartition:
  "Map_keys (fold loadPartition ps m) = fold (\<lambda>p. fold Set_add (regionIds p)) ps (Map_keys m)"
  by (induction ps arbitrary: m) (simp_all add: Map_keys_loadPartition)

text \<open>The record found under a key after a list of partitions has been loaded.\<close>

lemma lastRegion_None_iff: "lastRegion p k = None \<longleftrightarrow> \<not> partitionDeclares p k"
  by (auto simp: lastRegion_def partitionDeclares_def find_None_iff)

lemma find_SomeD: "find P xs = Some x \<Longrightarrow> P x \<and> x \<in> set xs"
  by (induction xs) (auto split: if_splits)

lemma lastRegion_SomeD: "lastRegion p k = Some reg \<Longrightarrow> r_id reg = k \<and> reg \<in> set (p_regions p)"
  using find_SomeD [of "\<lambda>reg. r_id reg = k" "rev (p_regions p)" reg]
  by (simp add: lastRegion_def)

lemma lookupStep_undeclared:
  "\<not> partitionDeclares p k \<Longrightarrow> lookupStep p k v = map_option (appendIds (offered p k)) v"
  using lastRegion_None_iff [of p k] by (simp add: lookupStep_def)

lemma lookupStep_declared:
  "lastRegion p k = Some reg \<Longrightarrow>
     lookupStep p k v = Some (appendIds (offered p k) (newRegionData p reg))"
  by (simp add: lookupStep_def)

lemma fold_lookupStep_undeclared:
  "\<forall>p\<in>set ps. \<not> partitionDeclares p k \<Longrightarrow>
     fold (\<lambda>p. lookupStep p k) ps v
       = map_option (appendIds (concat (map (\<lambda>p. offered p k) ps))) v"
  by (induction ps arbitrary: v)
     (simp_all add: lookupStep_undeclared map_option_appendIds_Nil map_option_appendIds_appendIds)

lemma fold_lookupStep_last:
  assumes "lastRegion p k = Some reg" and "\<forall>q\<in>set post. \<not> partitionDeclares q k"
  shows "fold (\<lambda>p. lookupStep p k) (pre @ p # post) v
           = Some (appendIds (offered p k @ concat (map (\<lambda>q. offered q k) post))
                     (newRegionData p reg))"
  using assms
  by (simp add: lookupStep_declared fold_lookupStep_undeclared appendIds_appendIds)

lemma fold_lookupStep_None_iff:
  "fold (\<lambda>p. lookupStep p k) ps v = None \<longleftrightarrow> v = None \<and> (\<forall>p\<in>set ps. \<not> partitionDeclares p k)"
proof (induction ps arbitrary: v)
  case Nil
  then show ?case by simp
next
  case (Cons p ps)
  show ?case
  proof (cases "lastRegion p k")
    case None
    then have "\<not> partitionDeclares p k" by (simp add: lastRegion_None_iff)
    then show ?thesis by (simp add: Cons.IH lookupStep_undeclared)
  next
    case (Some reg)
    then have "partitionDeclares p k" using lastRegion_None_iff [of p k] by simp
    with Some show ?thesis by (simp add: Cons.IH lookupStep_declared)
  qed
qed

text \<open>A list with an element satisfying P splits at the last such element.\<close>

lemma split_at_last:
  "\<exists>x\<in>set xs. P x \<Longrightarrow> \<exists>pre x post. xs = pre @ x # post \<and> P x \<and> (\<forall>y\<in>set post. \<not> P y)"
  using split_list_last_prop [of xs P] by blast

lemma set_offered: "s \<in> set (offered p k) \<longleftrightarrow> partitionOffers p s k"
  by (auto simp: offered_def pushed_def partitionOffers_def serviceTargets_def list_ex_iff)

section \<open>The index after the load of a manifest\<close>

lemmas load_defs = constructor_def loadFromEndpoints_def loadPartition_def loadService_def
  pushService_def setRegion_def Map_new_def

lemma Map_get_constructor:
  "Map_get (regionData (constructor m gs cred)) k = fold (\<lambda>p. lookupStep p k) (partitions m) None"
  by (simp add: constructor_def loadFromEndpoints_def Map_new_def Map_get_fold_loadPartition)

lemma fst_getPartitionId: "fst (getPartitionId rp r) = map_option partitionId (Map_get (regionData rp) r)"
  by (simp add: getPartitionId_def Let_def)

lemma fst_getDnsSuffixForRegion:
  "fst (getDnsSuffixForRegion rp r) = map_option dnsSuffix (Map_get (regionData rp) r)"
  by (simp add: getDnsSuffixForRegion_def Let_def)

lemma appendIds_fields:
  "partitionId (appendIds ids rd) = partitionId rd"
  "dnsSuffix (appendIds ids rd) = dnsSuffix rd"
  "region (appendIds ids rd) = region rd"
  "serviceIds (appendIds ids rd) = serviceIds rd @ ids"
  by (simp_all add: appendIds_def)

lemma newRegionData_fields:
  "partitionId (newRegionData p reg) = p_id p"
  "dnsSuffix (newRegionData p reg) = p_dnsSuffix p"
  "region (newRegionData p reg) = reg"
  "serviceIds (newRegionData p reg) = []"
  by (simp_all add: newRegionData_def)

lemma lookups_of_last_declaring:
  assumes "partitions m = pre @ p # post" and "partitionDeclares p r"
    and "\<forall>q\<in>set post. \<not> partitionDeclares q r"
  shows "fst (getPartitionId (constructor m gs cred) r) = Some (p_id p)"
    and "fst (getDnsSuffixForRegion (constructor m gs cred) r) = Some (p_dnsSuffix p)"
proof -
  from assms(2) obtain reg where reg: "lastRegion p r = Some reg"
    using lastRegion_None_iff [of p r] by auto
  have "Map_get (regionData (constructor m gs cred)) r
          = Some (appendIds (offered p r @ concat (map (\<lambda>q. offered q r) post)) (newRegionData p reg))"
    using fold_lookupStep_last [OF reg assms(3)] by (simp add: Map_get_constructor assms(1))
  then show "fst (getPartitionId (constructor m gs cred) r) = Some (p_id p)"
    and "fst (getDnsSuffixForRegion (constructor m gs cred) r) = Some (p_dnsSuffix p)"
    by (simp_all add: fst_getPartitionId fst_getDnsSuffixForRegion appendIds_fields newRegionData_fields)
qed

text \<open>
  C2. After the load of a manifest into a fresh index, a region of the index is a region
  that a partition declares; \<open>getPartitionId\<close> answers the id of the partition that
  declared it and \<open>getDnsSuffixForRegion\<close> that partition's DNS suffix (the last such
  partition of the manifest, should several declare the same region id). For a region
  with no record both answer undefined, log a warning, and return normally.
\<close>

theorem lookups_after_load:
  "(partitions m = pre @ p # post \<and> partitionDeclares p r
      \<and> (\<forall>q\<in>set post. \<not> partitionDeclares q r)
      \<longrightarrow> fst (getPartitionId (constructor m gs cred) r) = Some (p_id p)
        \<and> fst (getDnsSuffixForRegion (constructor m gs cred) r) = Some (p_dnsSuffix p)) \<and>
   (Map_get (regionData (constructor m gs cred)) r \<noteq> None
      \<longrightarrow> (\<exists>pre' p' post'. partitions m = pre' @ p' # post' \<and> partitionDeclares p' r
             \<and> (\<forall>q\<in>set post'. \<not> partitionDeclares q r)
             \<and> fst (getPartitionId (constructor m gs cred) r) = Some (p_id p')
             \<and> fst (getDnsSuffixForRegion (constructor m gs cred) r) = Some (p_dnsSuffix p'))) \<and>
   (Map_get (regionData (constructor m gs cred)) r = None
      \<longrightarrow> getPartitionId (constructor m gs cred) r
            = (None, [Warn (''Unable to determine the Partition that Region '' @ r @ '' belongs to'')])
        \<and> getDnsSuffixForRegion (constructor m gs cred) r
            = (None, [Warn (''Unable to find region data for: '' @ r)]))"
proof (intro conjI impI)
  assume a: "partitions m = pre @ p # post \<and> partitionDeclares p r
      \<and> (\<forall>q\<in>set post. \<not> partitionDeclares q r)"
  then show "fst (getPartitionId (constructor m gs cred) r) = Some (p_id p)"
    using lookups_of_last_declaring(1) [of m pre p post r] by blast
  from a show "fst (getDnsSuffixForRegion (constructor m gs cred) r) = Some (p_dnsSuffix p)"
    using lookups_of_last_declaring(2) [of m pre p post r] by blast
next
  assume "Map_get (regionData (constructor m gs cred)) r \<noteq> None"
  then have "\<exists>q\<in>set (partitions m). partitionDeclares q r"
    by (simp add: Map_get_constructor fold_lookupStep_None_iff)
  then obtain pre' p' post' where s: "partitions m = pre' @ p' # post'" "partitionDeclares p' r"
      "\<forall>q\<in>set post'. \<not> partitionDeclares q r"
    using split_at_last [of "partitions m" "\<lambda>q. partitionDeclares q r"] by blast
  with lookups_of_last_declaring [OF s, of gs cred]
  show "\<exists>pre' p' post'. partitions m = pre' @ p' # post' \<and> partitionDeclares p' r
             \<and> (\<forall>q\<in>set post'. \<not> partitionDeclares q r)
             \<and> fst (getPartitionId (constructor m gs cred) r) = Some (p_id p')
             \<and> fst (getDnsSuffixForRegion (constructor m gs cred) r) = Some (p_dnsSuffix p')"
    by blast
next
  assume n: "Map_get (regionData (constructor m gs cred)) r = None"
  then show "getPartitionId (constructor m gs cred) r
            = (None, [Warn (''Unable to determine the Partition that Region '' @ r @ '' belongs to'')])"
    by (simp add: getPartitionId_def truthy_opt_def)
  from n show "getDnsSuffixForRegion (constructor m gs cred) r
            = (None, [Warn (''Unable to find region data for: '' @ r)])"
    by (simp add: getDnsSuffixForRegion_def truthy_opt_def)
qed

theorem lookups_after_load_witness:
  "fst (getPartitionId (constructor exampleManifest noPreferences None) ''us-east-1'') = Some ''aws'' \<and>
   fst (getDnsSuffixForRegion (constructor exampleManifest noPreferences None) ''cn-north-1'')
     = Some ''amazonaws.com.cn'' \<and>
   getPartitionId (constructor exampleManifest noPreferences None) ''us-west-2''
     = (None, [Warn ''Unable to determine the Partition that Region us-west-2 belongs to''])"
  using lookups_after_load [of exampleManifest "[]" awsPartition "[awsCnPartition]" "''us-east-1''"
          noPreferences None]
        lookups_after_load [of exampleManifest "[awsPartition]" awsCnPartition "[]" "''cn-north-1''"
          noPreferences None]
        lookups_after_load [of exampleManifest "[]" awsPartition "[awsCnPartition]" "''us-west-2''"
          noPreferences None]
  by (simp add: exampleManifest_def awsPartition_def awsCnPartition_def partitionDeclares_def
        load_defs)

lemma fold_lookupStep_keeps_service:
  assumes "\<forall>q\<in>set post. \<not> partitionDeclares q k" and "v = Some rd" and "s \<in> set (serviceIds rd)"
  shows "\<exists>rd'. fold (\<lambda>p. lookupStep p k) post v = Some rd' \<and> s \<in> set (serviceIds rd')"
  using assms by (simp add: fold_lookupStep_undeclared appendIds_fields)

lemma lookupStep_adds_service:
  assumes "partitionOffers p s k" and "partitionDeclares p k \<or> v \<noteq> None"
  shows "\<exists>rd. lookupStep p k v = Some rd \<and> s \<in> set (serviceIds rd)"
proof (cases "lastRegion p k")
  case None
  then have nd: "\<not> partitionDeclares p k" by (simp add: lastRegion_None_iff)
  with assms(2) obtain rd where "v = Some rd" by auto
  with nd assms(1) show ?thesis
    by (simp add: lookupStep_undeclared appendIds_fields set_offered)
next
  case (Some reg)
  with assms(1) show ?thesis
    by (simp add: lookupStep_declared appendIds_fields set_offered)
qed

lemma fold_lookupStep_no_service:
  assumes "\<forall>p\<in>set ps. \<not> partitionOffers p s k"
    and "\<forall>rd. v = Some rd \<longrightarrow> s \<notin> set (serviceIds rd)"
  shows "\<forall>rd. fold (\<lambda>p. lookupStep p k) ps v = Some rd \<longrightarrow> s \<notin> set (serviceIds rd)"
  using assms
proof (induction ps arbitrary: v)
  case Nil
  then show ?case by simp
next
  case (Cons p ps)
  have "\<forall>rd. lookupStep p k v = Some rd \<longrightarrow> s \<notin> set (serviceIds rd)"
    using Cons.prems
    by (auto simp: lookupStep_def appendIds_fields newRegionData_fields set_offered
             split: option.splits)
  with Cons show ?case by simp
qed

text \<open>
  C1, as the claim states it, fails: an endpoint that targets a region no partition
  declares is dropped by the load, so the service is not in the region although the
  manifest declares the endpoint.
\<close>

theorem isServiceInRegion_dangling_endpoint_counterexample:
  "partitionOffers
     \<lparr>p_id = ''aws'', p_dnsSuffix = ''amazonaws.com'',
      p_regions = [\<lparr>r_id = ''eu-west-1'', r_name = ''Ireland''\<rparr>],
      p_services = [\<lparr>s_id = ''s3'', s_endpoints = [\<lparr>e_regionId = ''us-east-1''\<rparr>]\<rparr>]\<rparr>
     ''s3'' ''us-east-1'' \<and>
   \<not> isServiceInRegion
       (constructor
          \<lparr>partitions = [\<lparr>p_id = ''aws'', p_dnsSuffix = ''amazonaws.com'',
             p_regions = [\<lparr>r_id = ''eu-west-1'', r_name = ''Ireland''\<rparr>],
             p_services = [\<lparr>s_id = ''s3'', s_endpoints = [\<lparr>e_regionId = ''us-east-1''\<rparr>]\<rparr>]\<rparr>]\<rparr>
          \<lparr>regionSetting = None, lastSelectedRegion = None\<rparr> None)
       ''s3'' ''us-east-1''"
  by (simp add: partitionOffers_def serviceTargets_def constructor_def loadFromEndpoints_def
        loadPartition_def loadService_def pushService_def setRegion_def Map_new_def
        isServiceInRegion_def)

text \<open>
  C1, amended. After the load of a manifest into a fresh index: when a partition offers a
  service with a non-empty id in a region (one of its services has that id and an endpoint
  targeting the region), the region is declared by that partition or by one before it, and
  no later partition declares the region, \<open>isServiceInRegion\<close> is true; when no
  partition offers the service in the region, it is false.
\<close>

theorem isServiceInRegion_after_load:
  "(partitions m = pre @ p # post \<and> partitionOffers p s r \<and> s \<noteq> []
      \<and> (\<exists>q\<in>set (pre @ [p]). partitionDeclares q r)
      \<and> (\<forall>q\<in>set post. \<not> partitionDeclares q r)
      \<longrightarrow> isServiceInRegion (constructor m gs cred) s r) \<and>
   ((\<forall>q\<in>set (partitions m). \<not> partitionOffers q s r)
      \<longrightarrow> \<not> isServiceInRegion (constructor m gs cred) s r)"
proof (intro conjI impI)
  assume a: "partitions m = pre @ p # post \<and> partitionOffers p s r \<and> s \<noteq> []
      \<and> (\<exists>q\<in>set (pre @ [p]). partitionDeclares q r)
      \<and> (\<forall>q\<in>set post. \<not> partitionDeclares q r)"
  define v where "v = fold (\<lambda>p. lookupStep p r) pre None"
  from a have "partitionDeclares p r \<or> v \<noteq> None"
    by (auto simp: v_def fold_lookupStep_None_iff)
  with a obtain rd where rd: "lookupStep p r v = Some rd" "s \<in> set (serviceIds rd)"
    using lookupStep_adds_service [of p s r v] by blast
  from a have "\<forall>q\<in>set post. \<not> partitionDeclares q r" by blast
  from fold_lookupStep_keeps_service [OF this rd]
  obtain rd' where "fold (\<lambda>p. lookupStep p r) post (lookupStep p r v) = Some rd'"
      "s \<in> set (serviceIds rd')"
    by blast
  with a show "isServiceInRegion (constructor m gs cred) s r"
    by (simp add: isServiceInRegion_iff Map_get_constructor v_def)
next
  assume "\<forall>q\<in>set (partitions m). \<not> partitionOffers q s r"
  then have "\<forall>rd. fold (\<lambda>p. lookupStep p r) (partitions m) None = Some rd \<longrightarrow> s \<notin> set (serviceIds rd)"
    using fold_lookupStep_no_service [of "partitions m" s r None] by simp
  then show "\<not> isServiceInRegion (constructor m gs cred) s r"
    by (simp add: isServiceInRegion_iff Map_get_constructor)
qed

theorem isServiceInRegion_after_load_witness:
  "isServiceInRegion (constructor exampleManifest noPreferences None) ''ec2'' ''us-east-1'' \<and>
   isServiceInRegion (constructor exampleManifest noPreferences None) ''s3'' ''us-east-1'' \<and>
   \<not> isServiceInRegion (constructor exampleManifest noPreferences None) ''lambda'' ''us-east-1''"
  using isServiceInRegion_after_load [of exampleManifest "[awsPartition]" awsCnPartition "[]"
          "''ec2''" "''us-east-1''" noPreferences None]
        isServiceInRegion_after_load [of exampleManifest "[]" awsPartition "[awsCnPartition]"
          "''s3''" "''us-east-1''" noPreferences None]
        isServiceInRegion_after_load [of exampleManifest "[]" awsPartition "[awsCnPartition]"
          "''lambda''" "''us-east-1''" noPreferences None]
  by (simp add: exampleManifest_def awsPartition_def awsCnPartition_def partitionDeclares_def
        partitionOffers_def serviceTargets_def)

section \<open>Loading a manifest twice\<close>

lemma fold_Set_add_absorb: "set xs \<subseteq> set ks \<Longrightarrow> fold Set_add xs ks = ks"
  by (induction xs arbitrary: ks) (simp_all add: Set_add_def)

lemma set_keys_after_load:
  "set (fold (\<lambda>p. fold Set_add (regionIds p)) ps ks) = set ks \<union> (\<Union>p\<in>set ps. set (regionIds p))"
  by (induction ps arbitrary: ks) (auto simp: set_fold_Set_add)

lemma keys_after_load_absorb:
  "\<forall>p\<in>set ps. set (regionIds p) \<subseteq> set ks \<Longrightarrow> fold (\<lambda>p. fold Set_add (regionIds p)) ps ks = ks"
  by (induction ps arbitrary: ks) (simp_all add: fold_Set_add_absorb)

lemma distinct_keys_after_load:
  "distinct ks \<Longrightarrow> distinct (fold (\<lambda>p. fold Set_add (regionIds p)) ps ks)"
  by (induction ps arbitrary: ks) (simp_all add: distinct_fold_Set_add)

lemma Map_keys_load_twice:
  "Map_keys (fold loadPartition ps (fold loadPartition ps m)) = Map_keys (fold loadPartition ps m)"
proof -
  have "\<forall>p\<in>set ps. set (regionIds p) \<subseteq> set (Map_keys (fold loadPartition ps m))"
    by (auto simp: Map_keys_fold_loadPartition set_keys_after_load)
  then show ?thesis
    using keys_after_load_absorb [of ps "Map_keys (fold loadPartition ps m)"]
    by (simp add: Map_keys_fold_loadPartition)
qed

lemma distinct_Map_keys_load:
  "distinct (Map_keys m) \<Longrightarrow> distinct (Map_keys (fold loadPartition ps m))"
  by (simp add: Map_keys_fold_loadPartition distinct_keys_after_load)

lemma sameRecord_refl: "sameRecord a a"
  by (simp add: sameRecord_def)

lemma rel_option_sameRecord_refl: "rel_option sameRecord v v"
  by (cases v) (simp_all add: sameRecord_refl)

lemma fold_lookupStep_twice:
  "rel_option sameRecord
     (fold (\<lambda>p. lookupStep p k) ps (fold (\<lambda>p. lookupStep p k) ps v))
     (fold (\<lambda>p. lookupStep p k) ps v)"
proof (cases "\<exists>p\<in>set ps. partitionDeclares p k")
  case True
  then obtain pre p post where s: "ps = pre @ p # post" "partitionDeclares p k"
      "\<forall>q\<in>set post. \<not> partitionDeclares q k"
    using split_at_last [of ps "\<lambda>q. partitionDeclares q k"] by blast
  from s(2) obtain reg where reg: "lastRegion p k = Some reg"
    using lastRegion_None_iff [of p k] by auto
  have "fold (\<lambda>p. lookupStep p k) ps w = fold (\<lambda>p. lookupStep p k) ps v" for w
    unfolding s(1) fold_lookupStep_last [OF reg s(3)] ..
  from this [of "fold (\<lambda>p. lookupStep p k) ps v"] show ?thesis
    by (simp add: rel_option_sameRecord_refl)
next
  case False
  then have nd: "\<forall>p\<in>set ps. \<not> partitionDeclares p k" by blast
  show ?thesis
    by (cases v)
       (simp_all add: fold_lookupStep_undeclared [OF nd] sameRecord_def appendIds_fields)
qed

lemma Map_get_load_twice:
  "rel_option sameRecord
     (Map_get (fold loadPartition ps (fold loadPartition ps m)) k)
     (Map_get (fold loadPartition ps m) k)"
  using fold_lookupStep_twice [of k ps "Map_get m k"]
  by (simp add: Map_get_fold_loadPartition)

text \<open>The answers of the provider are determined by the keys in order and the records up to sameRecord.\<close>

lemma Map_values_by_keys:
  "distinct (Map_keys m) \<Longrightarrow> Map_values m = map (\<lambda>k. the (Map_get m k)) (Map_keys m)"
proof (induction m)
  case Nil
  then show ?case by (simp add: Map_values_def Map_keys_def)
next
  case (Cons kv m)
  obtain k v where kv: "kv = (k, v)" by (cases kv)
  from Cons.prems have d: "distinct (Map_keys m)" and nk: "k \<notin> set (Map_keys m)"
    by (simp_all add: Map_keys_def kv)
  have "map (\<lambda>k'. the (Map_get ((k, v) # m) k')) (Map_keys m)
          = map (\<lambda>k'. the (Map_get m k')) (Map_keys m)"
    using nk by (intro map_cong) auto
  with Cons.IH [OF d] show ?case
    by (simp add: kv Map_values_def Map_keys_def)
qed

lemma map_filter_map_cong:
  "(\<And>k. k \<in> set ks \<Longrightarrow> P (f k) = P (g k) \<and> h (f k) = h (g k)) \<Longrightarrow>
     map h (filter P (map f ks)) = map h (filter P (map g ks))"
  by (induction ks) auto

lemma same_answers:
  assumes keys: "Map_keys (regionData a) = Map_keys (regionData b)"
    and da: "distinct (Map_keys (regionData a))"
    and recs: "\<forall>k. rel_option sameRecord (Map_get (regionData a) k) (Map_get (regionData b) k)"
    and cred: "credentialDefaultRegion a = credentialDefaultRegion b"
  shows "isServiceInRegion a s r = isServiceInRegion b s r"
    and "getPartitionId a r = getPartitionId b r"
    and "getDnsSuffixForRegion a r = getDnsSuffixForRegion b r"
    and "getRegions a pid = getRegions b pid"
proof -
  have rec: "rel_option sameRecord (Map_get (regionData a) k) (Map_get (regionData b) k)" for k
    using recs by blast
  show "isServiceInRegion a s r = isServiceInRegion b s r"
    using rec [of r]
    by (cases "Map_get (regionData a) r"; cases "Map_get (regionData b) r")
       (simp_all add: isServiceInRegion_iff sameRecord_def)
  show p: "getPartitionId a r = getPartitionId b r" for r
    using rec [of r]
    by (cases "Map_get (regionData a) r"; cases "Map_get (regionData b) r")
       (simp_all add: getPartitionId_def sameRecord_def)
  show "getDnsSuffixForRegion a r = getDnsSuffixForRegion b r"
    using rec [of r]
    by (cases "Map_get (regionData a) r"; cases "Map_get (regionData b) r")
       (simp_all add: getDnsSuffixForRegion_def sameRecord_def)
  have dp: "defaultPartitionId a = defaultPartitionId b"
    by (simp add: defaultPartitionId_def defaultRegionId_def cred p)
  define q where "q = (case pid of None \<Rightarrow> defaultPartitionId b | Some x \<Rightarrow> Some x)"
  have qa: "(case pid of None \<Rightarrow> defaultPartitionId a | Some x \<Rightarrow> Some x) = q"
    unfolding q_def dp ..
  have on_keys: "partitionId (the (Map_get (regionData a) k)) = partitionId (the (Map_get (regionData b) k))
       \<and> region (the (Map_get (regionData a) k)) = region (the (Map_get (regionData b) k))"
    if "k \<in> set (Map_keys (regionData b))" for k
  proof -
    from that have "Map_get (regionData b) k \<noteq> None" by (simp add: Map_get_None_iff)
    with rec [of k] show ?thesis
      by (cases "Map_get (regionData a) k"; cases "Map_get (regionData b) k")
         (simp_all add: sameRecord_def)
  qed
  have db: "distinct (Map_keys (regionData b))" using da keys by simp
  have "map region (filter (\<lambda>rd. Some (partitionId rd) = q)
            (map (\<lambda>k. the (Map_get (regionData a) k)) (Map_keys (regionData b))))
      = map region (filter (\<lambda>rd. Some (partitionId rd) = q)
            (map (\<lambda>k. the (Map_get (regionData b) k)) (Map_keys (regionData b))))"
    using on_keys by (intro map_filter_map_cong) simp
  then show "getRegions a pid = getRegions b pid"
    by (simp add: getRegions_def qa q_def [symmetric] Map_values_by_keys [OF da]
          Map_values_by_keys [OF db] keys)
qed

text \<open>
  Every index that loading builds has distinct keys: the constructor starts from the empty
  map, a refresh clears the map, and the load keeps the keys distinct.
\<close>

lemma distinct_keys_loadFromEndpoints:
  "distinct (Map_keys (regionData rp)) \<Longrightarrow> distinct (Map_keys (regionData (loadFromEndpoints m rp)))"
  by (simp add: loadFromEndpoints_def distinct_Map_keys_load)

lemma distinct_keys_constructor: "distinct (Map_keys (regionData (constructor m gs cred)))"
  unfolding constructor_def
  by (rule distinct_keys_loadFromEndpoints) (simp add: Map_new_def Map_keys_def)

lemma distinct_keys_onLoadSettled:
  assumes "distinct (Map_keys (regionData rp))"
  shows "distinct (Map_keys (regionData (fst (onLoadSettled company cloud9 outcome rp))))"
proof (cases outcome)
  case (Resolved endpoints)
  have "distinct (Map_keys (regionData (rp\<lparr>regionData := Map_new\<rparr>)))"
    by (simp add: Map_new_def Map_keys_def)
  from distinct_keys_loadFromEndpoints [OF this] Resolved show ?thesis
    by (simp add: onLoadSettled_def)
next
  case (Rejected err)
  with assms show ?thesis by (simp add: onLoadSettled_def)
qed

text \<open>
  C6. Loading a manifest a second time changes no answer: \<open>isServiceInRegion\<close>,
  \<open>getPartitionId\<close>, \<open>getDnsSuffixForRegion\<close> and \<open>getRegions\<close> answer after two
  loads what they answer after one, from any index whose keys are distinct (as the keys of
  a map are). The service lists themselves may grow, as the example shows.
\<close>

theorem loadFromEndpoints_idempotent:
  assumes "distinct (Map_keys (regionData rp))"
  shows "(\<forall>s r. isServiceInRegion (loadFromEndpoints m (loadFromEndpoints m rp)) s r
                 = isServiceInRegion (loadFromEndpoints m rp) s r) \<and>
         (\<forall>r. getPartitionId (loadFromEndpoints m (loadFromEndpoints m rp)) r
                 = getPartitionId (loadFromEndpoints m rp) r) \<and>
         (\<forall>r. getDnsSuffixForRegion (loadFromEndpoints m (loadFromEndpoints m rp)) r
                 = getDnsSuffixForRegion (loadFromEndpoints m rp) r) \<and>
         (\<forall>pid. getRegions (loadFromEndpoints m (loadFromEndpoints m rp)) pid
                 = getRegions (loadFromEndpoints m rp) pid)"
proof -
  let ?once = "loadFromEndpoints m rp"
  let ?twice = "loadFromEndpoints m ?once"
  have keys: "Map_keys (regionData ?twice) = Map_keys (regionData ?once)"
    by (simp add: loadFromEndpoints_def Map_keys_load_twice)
  have d: "distinct (Map_keys (regionData ?twice))"
    using assms by (simp add: loadFromEndpoints_def distinct_Map_keys_load)
  have recs: "\<forall>k. rel_option sameRecord (Map_get (regionData ?twice) k) (Map_get (regionData ?once) k)"
    by (simp add: loadFromEndpoints_def Map_get_load_twice)
  have cred: "credentialDefaultRegion ?twice = credentialDefaultRegion ?once"
    by (simp add: loadFromEndpoints_def)
  show ?thesis
    using same_answers [OF keys d recs cred] by blast
qed

theorem loadFromEndpoints_idempotent_witness:
  "distinct (Map_keys (regionData exampleProvider)) \<and>
   serviceIds (the (Map_get (regionData
        (loadFromEndpoints exampleManifest (loadFromEndpoints exampleManifest exampleProvider)))
        ''us-west-2'')) = [''sqs'', ''s3'', ''s3''] \<and>
   serviceIds (the (Map_get (regionData (loadFromEndpoints exampleManifest exampleProvider))
        ''us-west-2'')) = [''sqs'', ''s3''] \<and>
   (\<forall>s r. isServiceInRegion
             (loadFromEndpoints exampleManifest (loadFromEndpoints exampleManifest exampleProvider)) s r
           = isServiceInRegion (loadFromEndpoints exampleManifest exampleProvider) s r) \<and>
   (\<forall>pid. getRegions
             (loadFromEndpoints exampleManifest (loadFromEndpoints exampleManifest exampleProvider)) pid
           = getRegions (loadFromEndpoints exampleManifest exampleProvider) pid)"
proof -
  have d: "distinct (Map_keys (regionData exampleProvider))"
    by (simp add: exampleProvider_def Map_keys_def)
  have two: "serviceIds (the (Map_get (regionData
        (loadFromEndpoints exampleManifest (loadFromEndpoints exampleManifest exampleProvider)))
        ''us-west-2'')) = [''sqs'', ''s3'', ''s3'']"
    by (simp add: exampleProvider_def exampleManifest_def awsPartition_def awsCnPartition_def
          load_defs)
  have one: "serviceIds (the (Map_get (regionData (loadFromEndpoints exampleManifest exampleProvider))
        ''us-west-2'')) = [''sqs'', ''s3'']"
    by (simp add: exampleProvider_def exampleManifest_def awsPartition_def awsCnPartition_def
          load_defs)
  from d two one loadFromEndpoints_idempotent [OF d, of exampleManifest] show ?thesis
    by blast
qed

end
